theory Spec2Isabelle
  imports Complex_Main "HOL-Library.Multiset" "HOL-Library.Log_Nat"
begin

section \<open>Python values\<close>

text \<open>
  A Python float is an IEEE-754 binary64 value. A finite one is kept as a mantissa and a
  binary exponent, \<open>Finite m e\<close> standing for \<open>m * 2 ^ e\<close>; all arithmetic on it is
  integer arithmetic.
\<close>

datatype pyfloat = Finite int int | PosInf | NegInf | NaN

datatype pyerr =
    KeyError string
  | FileNotFoundError string
  | ValueError string
  | OverflowError string
  | TypeError string
  | AttributeError string

record message =
  role :: string
  content :: string

datatype pyval =
    PyStr string
  | PyInt int
  | PyFloat pyfloat
  | PyBool bool
  | PyNone
  | PyMessages "message list"

text \<open>A row of a DataFrame and an example of a Dataset are dictionaries from column name to value.\<close>

type_synonym example = "string \<rightharpoonup> pyval"

type_synonym dataframe = "example list"

datatype hf_dataset =
    Dataset "example list"
  | DatasetDict "example list" "example list"

subsection \<open>Float arithmetic used by the split index\<close>

definition pow2 :: "int \<Rightarrow> int" where
  "pow2 k = 2 ^ nat k"


definition round_half_even :: "int \<Rightarrow> int \<Rightarrow> int" where
  "round_half_even m s =
     (let q = m div pow2 s; r = m mod pow2 s; h = pow2 (s - 1)
      in if r < h then q else if h < r then q + 1 else if even q then q else q + 1)"

text \<open>
  Rounding of the exact value \<open>m * 2 ^ e\<close> to binary64, to nearest with ties to even:
  53 bits of mantissa, least exponent \<open>-1074\<close>, overflow to infinity from \<open>2 ^ 1024\<close>.
\<close>

definition float_round_pos :: "int \<Rightarrow> int \<Rightarrow> (int \<times> int) option" where
  "float_round_pos m e =
     (let s = max (bitlen m - 53) (- 1074 - e);
          (m', e') = (if s \<le> 0 then (m, e) else (round_half_even m s, e + s))
      in if m' = 0 then Some (0, 0)
         else if 1024 < bitlen m' + e' then None
         else Some (m', e'))"

definition float_round :: "int \<Rightarrow> int \<Rightarrow> pyfloat" where
  "float_round m e =
     (if 0 \<le> m then (case float_round_pos m e of None \<Rightarrow> PosInf | Some (m', e') \<Rightarrow> Finite m' e')
      else (case float_round_pos (- m) e of None \<Rightarrow> NegInf | Some (m', e') \<Rightarrow> Finite (- m') e'))"

text \<open>\<^verbatim>\<open>float(n)\<close> for an int: OverflowError when the int is too large.\<close>

definition int_to_float :: "int \<Rightarrow> pyerr + pyfloat" where
  "int_to_float n =
     (case float_round n 0 of
        Finite m e \<Rightarrow> Inr (Finite m e)
      | _ \<Rightarrow> Inl (OverflowError ''int too large to convert to float''))"

fun float_mul :: "pyfloat \<Rightarrow> pyfloat \<Rightarrow> pyfloat" where
  "float_mul (Finite a ea) (Finite b eb) = float_round (a * b) (ea + eb)"
| "float_mul NaN _ = NaN"
| "float_mul _ NaN = NaN"
| "float_mul (Finite a ea) PosInf = (if a = 0 then NaN else if 0 < a then PosInf else NegInf)"
| "float_mul (Finite a ea) NegInf = (if a = 0 then NaN else if 0 < a then NegInf else PosInf)"
| "float_mul PosInf (Finite b eb) = (if b = 0 then NaN else if 0 < b then PosInf else NegInf)"
| "float_mul NegInf (Finite b eb) = (if b = 0 then NaN else if 0 < b then NegInf else PosInf)"
| "float_mul PosInf PosInf = PosInf"
| "float_mul PosInf NegInf = NegInf"
| "float_mul NegInf PosInf = NegInf"
| "float_mul NegInf NegInf = PosInf"

text \<open>\<^verbatim>\<open>int(x)\<close> for a float: truncation toward zero; NaN and the infinities raise.\<close>

fun py_int :: "pyfloat \<Rightarrow> pyerr + int" where
  "py_int (Finite m e) =
     Inr (if 0 \<le> e then m * pow2 e
          else if 0 \<le> m then m div pow2 (- e)
          else - ((- m) div pow2 (- e)))"
| "py_int NaN = Inl (ValueError ''cannot convert float NaN to integer'')"
| "py_int _ = Inl (OverflowError ''cannot convert float infinity to integer'')"

subsection \<open>\<^verbatim>\<open>str()\<close> and string helpers\<close>

fun digits_of_nat :: "nat \<Rightarrow> string" where
  "digits_of_nat n =
     (if n < 10 then [''0123456789'' ! n]
      else digits_of_nat (n div 10) @ [''0123456789'' ! (n mod 10)])"

definition str_of_int :: "int \<Rightarrow> string" where
  "str_of_int i = (if i < 0 then ''-'' @ digits_of_nat (nat (- i)) else digits_of_nat (nat i))"

text \<open>
  The world outside the repository: the files on disk as pandas parses them, the two
  library shuffles, the prompt table of module \<^verbatim>\<open>system_prompts\<close>, and the interpreter's
  text for a float and for a list of messages.

  \<^item> \<open>files p\<close> is the frame that \<^verbatim>\<open>pd.read_csv(p)\<close> returns, and \<open>None\<close> when nothing is
    at path \<open>p\<close> (\<^verbatim>\<open>os.path.exists(p)\<close> is false).
  \<^item> \<open>df_sample seed n\<close> is the row order that \<^verbatim>\<open>df.sample(frac=1, random_state=seed)\<close>
    gives a frame of \<open>n\<close> rows: position \<open>i\<close> of the result holds row \<open>df_sample seed n ! i\<close>.
  \<^item> \<open>ds_shuffle seed n\<close> is the same for \<^verbatim>\<open>Dataset.shuffle(seed=seed)\<close>.
\<close>

record env =
  files :: "string \<rightharpoonup> dataframe"
  df_sample :: "int \<Rightarrow> nat \<Rightarrow> nat list"
  ds_shuffle :: "int \<Rightarrow> nat \<Rightarrow> nat list"
  get_sys_prompt :: "string \<Rightarrow> pyerr + string"
  float_str :: "pyfloat \<Rightarrow> string"
  messages_str :: "message list \<Rightarrow> string"

fun py_str :: "env \<Rightarrow> pyval \<Rightarrow> string" where
  "py_str env (PyStr s) = s"
| "py_str env (PyInt i) = str_of_int i"
| "py_str env (PyFloat f) = float_str env f"
| "py_str env (PyBool b) = (if b then ''True'' else ''False'')"
| "py_str env PyNone = ''None''"
| "py_str env (PyMessages ms) = messages_str env ms"

text \<open>\<^verbatim>\<open>s.lower()\<close> on the ASCII letters.\<close>

definition lower_char :: "char \<Rightarrow> char" where
  "lower_char c =
     (let n = (of_char c :: nat) in if 65 \<le> n \<and> n \<le> 90 then char_of (n + 32) else c)"

definition lower :: "string \<Rightarrow> string" where
  "lower s = map lower_char s"

text \<open>\<^verbatim>\<open>needle in hay\<close> for two strings.\<close>

fun py_in :: "string \<Rightarrow> string \<Rightarrow> bool" where
  "py_in needle [] = (needle = [])"
| "py_in needle (c # cs) = (take (length needle) (c # cs) = needle \<or> py_in needle cs)"

subsection \<open>Sequences\<close>

text \<open>The rows of \<open>xs\<close> in the order given by an index list.\<close>

definition reorder :: "nat list \<Rightarrow> 'a list \<Rightarrow> 'a list" where
  "reorder idx xs = map (\<lambda>i. xs ! i) idx"


text \<open>\<^verbatim>\<open>xs[:k]\<close> and \<^verbatim>\<open>xs[k:]\<close>; a negative \<open>k\<close> counts from the end.\<close>

definition slice_to :: "int \<Rightarrow> 'a list \<Rightarrow> 'a list" where
  "slice_to k xs = (if 0 \<le> k then take (nat k) xs else take (length xs - nat (- k)) xs)"

definition slice_from :: "int \<Rightarrow> 'a list \<Rightarrow> 'a list" where
  "slice_from k xs = (if 0 \<le> k then drop (nat k) xs else drop (length xs - nat (- k)) xs)"

section \<open>lifesnaps_healthcare.py\<close>

definition ALL_SYS_PROMPTS :: "string list" where
  "ALL_SYS_PROMPTS = [''gen'', ''tac'', ''tabc'', ''tabc_long'']"

text \<open>The literals \<^verbatim>\<open>0.8\<close> and \<^verbatim>\<open>0.9\<close> as binary64 values.\<close>

definition DEFAULT_TRAIN_RATIO :: pyfloat where
  "DEFAULT_TRAIN_RATIO = Finite 7205759403792794 (- 53)"

definition LOADER_TRAIN_RATIO :: pyfloat where
  "LOADER_TRAIN_RATIO = Finite 8106479329266893 (- 53)"

definition DEFAULT_SEED :: int where
  "DEFAULT_SEED = 42"

record ScriptArgs =
  sys_prompt_name :: string
  task_spec :: string

text \<open>What a run does to the outside, in order.\<close>

datatype event =
    MakeDirs string
  | ReadCsv string
  | SaveToDisk string hf_dataset

text \<open>\<^verbatim>\<open>int(len(df) * train_ratio)\<close>\<close>

definition split_idx :: "nat \<Rightarrow> pyfloat \<Rightarrow> pyerr + int" where
  "split_idx n train_ratio =
     (case int_to_float (int n) of
        Inl err \<Rightarrow> Inl err
      | Inr f \<Rightarrow> py_int (float_mul f train_ratio))"

text \<open>
  \<^verbatim>\<open>df['answer'] = df['answer'].astype(str)\<close>, guarded by the column being there. A frame is
  kept as the list of its rows, so the guard is made row by row; in a frame all rows have
  the same columns.
\<close>

definition answer_astype_str :: "env \<Rightarrow> example \<Rightarrow> example" where
  "answer_astype_str env row =
     (case row ''answer'' of
        None \<Rightarrow> row
      | Some v \<Rightarrow> row(''answer'' \<mapsto> PyStr (py_str env v)))"

text \<open>
  \<^verbatim>\<open>load_single_csv\<close>: read, normalise the answers, shuffle, cut. \<^verbatim>\<open>Dataset.from_pandas\<close>
  keeps the rows and their order. Console output is left out here and below.
\<close>

definition load_single_csv ::
  "env \<Rightarrow> string \<Rightarrow> pyfloat \<Rightarrow> int \<Rightarrow> event list \<times> (pyerr + example list \<times> example list)" where
  "load_single_csv env csv_path train_ratio seed =
     (case files env csv_path of
        None \<Rightarrow> ([], Inl (FileNotFoundError csv_path))
      | Some df0 \<Rightarrow>
          (let df1 = map (answer_astype_str env) df0;
               df = reorder (df_sample env seed (length df1)) df1
           in case split_idx (length df) train_ratio of
                Inl err \<Rightarrow> ([ReadCsv csv_path], Inl err)
              | Inr k \<Rightarrow> ([ReadCsv csv_path], Inr (slice_to k df, slice_from k df))))"

text \<open>The \<^verbatim>\<open>for\<close> loop of \<^verbatim>\<open>load_all_csv_files\<close> over \<^verbatim>\<open>csv_files.items()\<close>.\<close>

fun load_all_loop ::
  "env \<Rightarrow> (string \<times> string) list \<Rightarrow> pyfloat \<Rightarrow> int \<Rightarrow> example list list \<Rightarrow> example list list
     \<Rightarrow> event list \<times> (pyerr + example list list \<times> example list list)" where
  "load_all_loop env [] train_ratio seed all_train all_test = ([], Inr (all_train, all_test))"
| "load_all_loop env ((task_name, csv_path) # rest) train_ratio seed all_train all_test =
     (if files env csv_path = None
      then load_all_loop env rest train_ratio seed all_train all_test
      else (case load_single_csv env csv_path train_ratio seed of
              (evs, Inl err) \<Rightarrow> (evs, Inl err)
            | (evs, Inr (train_ds, test_ds)) \<Rightarrow>
                (case load_all_loop env rest train_ratio seed
                        (all_train @ [train_ds]) (all_test @ [test_ds]) of
                   (evs', res) \<Rightarrow> (evs @ evs', res))))"

text \<open>
  \<^verbatim>\<open>load_all_csv_files\<close>: \<^verbatim>\<open>concatenate_datasets\<close> appends the datasets in list order, and
  \<^verbatim>\<open>Dataset.shuffle(seed=seed)\<close> reorders the rows by the library's index list.
\<close>

definition load_all_csv_files ::
  "env \<Rightarrow> (string \<times> string) list \<Rightarrow> pyfloat \<Rightarrow> int \<Rightarrow> event list \<times> (pyerr + hf_dataset option)" where
  "load_all_csv_files env csv_files train_ratio seed =
     (case load_all_loop env csv_files train_ratio seed [] [] of
        (evs, Inl err) \<Rightarrow> (evs, Inl err)
      | (evs, Inr (all_train, all_test)) \<Rightarrow>
          (if all_train = [] then (evs, Inr None)
           else (let combined_train = concat all_train;
                     combined_test = concat all_test
                 in (evs, Inr (Some (DatasetDict
                       (reorder (ds_shuffle env seed (length combined_train)) combined_train)
                       (reorder (ds_shuffle env seed (length combined_test)) combined_test)))))))"

section \<open>data_processing.py\<close>

text \<open>\<^verbatim>\<open>f"\n\nPROBLEM: {x}\n\n"\<close>\<close>

definition user_format_of :: "string \<Rightarrow> string" where
  "user_format_of problem_text = ''\<newline>\<newline>PROBLEM: '' @ problem_text @ ''\<newline>\<newline>''"

definition conversation :: "string \<Rightarrow> string \<Rightarrow> pyval" where
  "conversation sys_prompt user_format =
     PyMessages [\<lparr>role = ''system'', content = sys_prompt\<rparr>,
                 \<lparr>role = ''user'', content = user_format\<rparr>]"

text \<open>The dictionary that \<^verbatim>\<open>make_generation_conversation\<close> returns for one example.\<close>

definition make_generation_conversation :: "env \<Rightarrow> string \<Rightarrow> example \<Rightarrow> pyerr + example" where
  "make_generation_conversation env sys_prompt example =
     (case example ''question'' of
        Some q \<Rightarrow>
          Inr [''prompt'' \<mapsto> conversation sys_prompt (user_format_of (py_str env q))]
      | None \<Rightarrow>
          (case example ''problem'' of
             None \<Rightarrow> Inl (KeyError ''problem'')
           | Some p \<Rightarrow>
               Inr [''prompt'' \<mapsto> conversation sys_prompt (user_format_of (py_str env p))]))"

text \<open>
  \<^verbatim>\<open>Dataset.map(f)\<close>: every example, in order, updated with the dictionary \<open>f\<close> returns
  for it; the first exception ends the call.
\<close>

fun map_examples :: "(example \<Rightarrow> pyerr + example) \<Rightarrow> example list \<Rightarrow> pyerr + example list" where
  "map_examples f [] = Inr []"
| "map_examples f (x # xs) =
     (case f x of
        Inl err \<Rightarrow> Inl err
      | Inr upd \<Rightarrow>
          (case map_examples f xs of
             Inl err \<Rightarrow> Inl err
           | Inr ys \<Rightarrow> Inr ((x ++ upd) # ys)))"

text \<open>\<^verbatim>\<open>dataset.map(f)\<close> on a Dataset, and on a DatasetDict split by split.\<close>

fun dataset_map :: "(example \<Rightarrow> pyerr + example) \<Rightarrow> hf_dataset \<Rightarrow> pyerr + hf_dataset" where
  "dataset_map f (Dataset rows) =
     (case map_examples f rows of Inl err \<Rightarrow> Inl err | Inr rows' \<Rightarrow> Inr (Dataset rows'))"
| "dataset_map f (DatasetDict tr te) =
     (case map_examples f tr of
        Inl err \<Rightarrow> Inl err
      | Inr tr' \<Rightarrow>
          (case map_examples f te of
             Inl err \<Rightarrow> Inl err
           | Inr te' \<Rightarrow> Inr (DatasetDict tr' te')))"

definition make_generation_dataset :: "env \<Rightarrow> hf_dataset \<Rightarrow> string \<Rightarrow> pyerr + hf_dataset" where
  "make_generation_dataset env dataset sys_prompt =
     dataset_map (make_generation_conversation env sys_prompt) dataset"

definition process_dataset :: "env \<Rightarrow> hf_dataset \<Rightarrow> ScriptArgs \<Rightarrow> pyerr + hf_dataset" where
  "process_dataset env dataset script_args =
     (case get_sys_prompt env (sys_prompt_name script_args) of
        Inl err \<Rightarrow> Inl err
      | Inr sys_prompt \<Rightarrow>
          (if task_spec script_args = ''gen''
           then make_generation_dataset env dataset sys_prompt
           else Inr dataset))"

text \<open>The answer-format sentence that \<^verbatim>\<open>make_healthcare_dataset\<close> picks from the source label.\<close>

definition instruction_for :: "string \<Rightarrow> string" where
  "instruction_for source =
     (if py_in ''fatigue'' (lower source)
      then '' Your prediction should be a single integer from 0 to 5. Only provide the predicted value within the <answer> </answer> tags.''
      else if py_in ''readiness'' (lower source)
      then '' Your prediction should be a single integer from 0 to 10. Only provide the predicted value within the <answer> </answer> tags.''
      else if py_in ''sleep_quality'' (lower source)
      then '' Your prediction should be a single integer from 1 to 5. Only provide the predicted value within the <answer> </answer> tags.''
      else if py_in ''stress'' (lower source)
      then '' Your prediction should be a single integer from 0 to 5. Only provide the predicted value within the <answer> </answer> tags.''
      else '' Only provide the predicted value within the <answer> </answer> tags.'')"

text \<open>\<^verbatim>\<open>example.get(key, default)\<close>\<close>

definition dict_get :: "example \<Rightarrow> string \<Rightarrow> pyval \<Rightarrow> pyval" where
  "dict_get example key dflt = (case example key of None \<Rightarrow> dflt | Some v \<Rightarrow> v)"

text \<open>
  The first half of \<^verbatim>\<open>process_example\<close>: the problem text, with the instruction appended
  when asked for. \<^verbatim>\<open>source.lower()\<close> needs a string, and so does \<^verbatim>\<open>problem_text + instruction\<close>.
\<close>

definition healthcare_problem_text :: "bool \<Rightarrow> example \<Rightarrow> pyerr + pyval" where
  "healthcare_problem_text add_instruction example =
     (case example ''problem'' of
        None \<Rightarrow> Inl (KeyError ''problem'')
      | Some problem_text \<Rightarrow>
          (if add_instruction
           then (case dict_get example ''source'' (PyStr ''PMData'') of
                   PyStr source \<Rightarrow>
                     (case problem_text of
                        PyStr p \<Rightarrow> Inr (PyStr (p @ instruction_for source))
                      | _ \<Rightarrow> Inl (TypeError ''unsupported operand type(s) for +''))
                 | _ \<Rightarrow> Inl (AttributeError ''lower''))
           else Inr problem_text))"

definition process_example :: "env \<Rightarrow> string \<Rightarrow> bool \<Rightarrow> example \<Rightarrow> pyerr + example" where
  "process_example env sys_prompt add_instruction example =
     (case healthcare_problem_text add_instruction example of
        Inl err \<Rightarrow> Inl err
      | Inr problem_text \<Rightarrow>
          (case example ''answer'' of
             None \<Rightarrow> Inl (KeyError ''answer'')
           | Some a \<Rightarrow>
               Inr [''prompt'' \<mapsto> conversation sys_prompt (user_format_of (py_str env problem_text)),
                    ''answer'' \<mapsto> PyStr (py_str env a),
                    ''source'' \<mapsto> dict_get example ''source'' (PyStr ''healthcare'')]))"

definition make_healthcare_dataset :: "env \<Rightarrow> hf_dataset \<Rightarrow> string \<Rightarrow> bool \<Rightarrow> pyerr + hf_dataset" where
  "make_healthcare_dataset env dataset sys_prompt add_instruction =
     dataset_map (process_example env sys_prompt add_instruction) dataset"

section \<open>The orchestrator of lifesnaps_healthcare.py\<close>

text \<open>\<^verbatim>\<open>os.path.join(a, b)\<close> for a relative \<open>b\<close>.\<close>

definition path_join :: "string \<Rightarrow> string \<Rightarrow> string" where
  "path_join a b = (if a = [] \<or> last a = CHR ''/'' then a @ b else a @ ''/'' @ b)"

definition create_dataset_for_prompt ::
  "env \<Rightarrow> hf_dataset \<Rightarrow> string \<Rightarrow> string \<Rightarrow> event list \<times> (pyerr + hf_dataset \<times> string)" where
  "create_dataset_for_prompt env raw_dataset name output_dir =
     (case process_dataset env raw_dataset \<lparr>sys_prompt_name = name, task_spec = ''gen''\<rparr> of
        Inl err \<Rightarrow> ([], Inl err)
      | Inr processed \<Rightarrow>
          (let save_path = path_join output_dir (''lifesnaps_'' @ name)
           in ([SaveToDisk save_path processed], Inr (processed, save_path))))"

record result_info =
  path :: string
  train_size :: nat
  test_size :: nat

text \<open>\<^verbatim>\<open>processed['train']\<close> and \<^verbatim>\<open>processed['test']\<close>\<close>

fun split_of :: "hf_dataset \<Rightarrow> string \<Rightarrow> pyerr + example list" where
  "split_of (DatasetDict tr te) key =
     (if key = ''train'' then Inr tr else if key = ''test'' then Inr te else Inl (KeyError key))"
| "split_of (Dataset rows) key = Inl (KeyError key)"

text \<open>The \<^verbatim>\<open>for sys_prompt_name in ALL_SYS_PROMPTS\<close> loop, over any list of names.\<close>

fun prompts_loop ::
  "env \<Rightarrow> hf_dataset \<Rightarrow> string \<Rightarrow> string list \<Rightarrow> (string \<rightharpoonup> result_info)
     \<Rightarrow> event list \<times> (pyerr + (string \<rightharpoonup> result_info))" where
  "prompts_loop env raw_dataset output_dir [] results = ([], Inr results)"
| "prompts_loop env raw_dataset output_dir (name # names) results =
     (case create_dataset_for_prompt env raw_dataset name output_dir of
        (evs, Inl err) \<Rightarrow> (evs, Inl err)
      | (evs, Inr (processed, save_path)) \<Rightarrow>
          (case split_of processed ''train'' of
             Inl err \<Rightarrow> (evs, Inl err)
           | Inr tr \<Rightarrow>
               (case split_of processed ''test'' of
                  Inl err \<Rightarrow> (evs, Inl err)
                | Inr te \<Rightarrow>
                    (case prompts_loop env raw_dataset output_dir names
                            (results(name \<mapsto>
                               \<lparr>path = save_path, train_size = length tr, test_size = length te\<rparr>)) of
                       (evs', res) \<Rightarrow> (evs @ evs', res)))))"

text \<open>
  \<^verbatim>\<open>create_datasets_for_all_prompts\<close>, with the list of prompt names as an argument;
  the script runs it on \<open>ALL_SYS_PROMPTS\<close>.
\<close>

definition create_datasets_for_prompts ::
  "env \<Rightarrow> string list \<Rightarrow> (string \<times> string) list \<Rightarrow> string \<Rightarrow> pyfloat \<Rightarrow> int
     \<Rightarrow> event list \<times> (pyerr + (string \<rightharpoonup> result_info) option)" where
  "create_datasets_for_prompts env names csv_files output_dir train_ratio seed =
     (case load_all_csv_files env csv_files train_ratio seed of
        (evs, Inl err) \<Rightarrow> (MakeDirs output_dir # evs, Inl err)
      | (evs, Inr None) \<Rightarrow> (MakeDirs output_dir # evs, Inr None)
      | (evs, Inr (Some raw_dataset)) \<Rightarrow>
          (case prompts_loop env raw_dataset output_dir names Map.empty of
             (evs', Inl err) \<Rightarrow> (MakeDirs output_dir # evs @ evs', Inl err)
           | (evs', Inr results) \<Rightarrow> (MakeDirs output_dir # evs @ evs', Inr (Some results))))"

definition create_datasets_for_all_prompts ::
  "env \<Rightarrow> (string \<times> string) list \<Rightarrow> string \<Rightarrow> pyfloat \<Rightarrow> int
     \<Rightarrow> event list \<times> (pyerr + (string \<rightharpoonup> result_info) option)" where
  "create_datasets_for_all_prompts env csv_files output_dir train_ratio seed =
     create_datasets_for_prompts env ALL_SYS_PROMPTS csv_files output_dir train_ratio seed"

section \<open>Notions used to state the properties\<close>

definition is_str :: "pyval \<Rightarrow> bool" where
  "is_str v = (case v of PyStr s \<Rightarrow> True | _ \<Rightarrow> False)"

text \<open>Every answer that is there is a string.\<close>

definition answers_are_text :: "example list \<Rightarrow> bool" where
  "answers_are_text rows = list_all (\<lambda>x. case x ''answer'' of None \<Rightarrow> True | Some v \<Rightarrow> is_str v) rows"

definition triple :: "example \<Rightarrow> pyval option \<times> pyval option \<times> pyval option" where
  "triple x = (x ''problem'', x ''answer'', x ''source'')"

definition problems_of :: "example list \<Rightarrow> pyval option list" where
  "problems_of rows = map (\<lambda>x. x ''problem'') rows"

fun rows_of :: "hf_dataset \<Rightarrow> example list" where
  "rows_of (Dataset rows) = rows"
| "rows_of (DatasetDict tr te) = tr @ te"

text \<open>The problem text as the spec words it: the question field if present, else the problem field.\<close>

definition spec_problem_text :: "env \<Rightarrow> example \<Rightarrow> string option" where
  "spec_problem_text env x =
     (if x ''question'' \<noteq> None then map_option (py_str env) (x ''question'')
      else map_option (py_str env) (x ''problem''))"

text \<open>Every record has a problem text in that sense.\<close>

definition all_templatable :: "env \<Rightarrow> example list \<Rightarrow> bool" where
  "all_templatable env rows \<longleftrightarrow> (\<forall>x \<in> set rows. spec_problem_text env x \<noteq> None)"

text \<open>An example with the two-turn prompt of a variant added.\<close>

definition templated :: "env \<Rightarrow> string \<Rightarrow> example \<Rightarrow> example" where
  "templated env sys_prompt x =
     x(''prompt'' \<mapsto> conversation sys_prompt
         (user_format_of (case spec_problem_text env x of None \<Rightarrow> [] | Some t \<Rightarrow> t)))"

text \<open>An example with the content of its system turn blanked.\<close>

definition erase_system :: "example \<Rightarrow> example" where
  "erase_system x =
     (case x ''prompt'' of
        Some (PyMessages (m # ms)) \<Rightarrow> x(''prompt'' \<mapsto> PyMessages (m\<lparr>content := []\<rparr> # ms))
      | _ \<Rightarrow> x)"

fun is_save :: "event \<Rightarrow> bool" where
  "is_save (SaveToDisk p d) = True"
| "is_save _ = False"

text \<open>The paths of a source table that are on disk, in the table's order.\<close>

definition existing_paths :: "env \<Rightarrow> (string \<times> string) list \<Rightarrow> string list" where
  "existing_paths env csv_files = filter (\<lambda>p. files env p \<noteq> None) (map snd csv_files)"


definition same_library :: "env \<Rightarrow> env \<Rightarrow> bool" where
  "same_library env1 env2 \<longleftrightarrow>
     df_sample env1 = df_sample env2 \<and> ds_shuffle env1 = ds_shuffle env2
     \<and> float_str env1 = float_str env2 \<and> messages_str env1 = messages_str env2"

subsection \<open>A small world to run the definitions in\<close>

definition example_row :: "string \<Rightarrow> pyval \<Rightarrow> string \<Rightarrow> example" where
  "example_row p a s = [''problem'' \<mapsto> PyStr p, ''answer'' \<mapsto> a, ''source'' \<mapsto> PyStr s]"

definition sleep_rows :: dataframe where
  "sleep_rows =
     [example_row ''s0'' (PyInt 0) ''sleep_disorder'',
      example_row ''s1'' (PyInt 1) ''sleep_disorder'',
      example_row ''s2'' (PyInt 0) ''sleep_disorder'']"

definition stress_rows :: dataframe where
  "stress_rows =
     [example_row ''t0'' (PyFloat (Finite 5 (- 1))) ''stress_resilience'',
      example_row ''t1'' (PyFloat (Finite 1 (- 1))) ''stress_resilience'']"

definition example_files :: "string \<rightharpoonup> dataframe" where
  "example_files p =
     (if p = ''sleep.csv'' then Some sleep_rows
      else if p = ''stress.csv'' then Some stress_rows
      else if p = ''a.csv'' then Some (replicate 10 (example_row ''a'' (PyInt 1) ''A''))
      else if p = ''b.csv'' then Some (replicate 4 (example_row ''b'' (PyInt 0) ''B''))
      else None)"

definition example_csv_files :: "(string \<times> string) list" where
  "example_csv_files =
     [(''sleep_disorder'', ''sleep.csv''), (''stress_resilience'', ''stress.csv'')]"

definition example_prompts :: "string \<Rightarrow> pyerr + string" where
  "example_prompts name =
     (if name \<in> set ALL_SYS_PROMPTS then Inr (''SYSTEM '' @ name) else Inl (KeyError name))"

definition example_float_str :: "pyfloat \<Rightarrow> string" where
  "example_float_str f =
     (case f of
        Finite m e \<Rightarrow> (if e = - 1 then str_of_int (m div 2) @ (if even m then ''.0'' else ''.5'') else ''?'')
      | _ \<Rightarrow> ''nan'')"

definition example_env :: env where
  "example_env =
     \<lparr>files = example_files,
      df_sample = (\<lambda>seed n. rev [0..<n]),
      ds_shuffle = (\<lambda>seed n. rotate1 [0..<n]),
      get_sys_prompt = example_prompts,
      float_str = example_float_str,
      messages_str = (\<lambda>ms. ''[...]'')\<rparr>"

section \<open>Properties of the templater\<close>

lemma make_generation_conversation_eq:
  "make_generation_conversation env sp x =
     (case spec_problem_text env x of
        None \<Rightarrow> Inl (KeyError ''problem'')
      | Some t \<Rightarrow> Inr [''prompt'' \<mapsto> conversation sp (user_format_of t)])"
  by (simp add: make_generation_conversation_def spec_problem_text_def split: option.splits)

lemma map_examples_generation:
  "map_examples (make_generation_conversation env sp) xs =
     (if \<forall>x \<in> set xs. spec_problem_text env x \<noteq> None
      then Inr (map (templated env sp) xs) else Inl (KeyError ''problem''))"
  by (induction xs) (auto simp: make_generation_conversation_eq templated_def split: option.splits)

lemma map_examples_all2:
  "map_examples f xs = Inr ys \<Longrightarrow> list_all2 (\<lambda>x y. \<exists>upd. f x = Inr upd \<and> y = x ++ upd) xs ys"
  by (induction xs arbitrary: ys) (auto split: sum.splits)

lemma dataset_map_rows:
  "dataset_map f d = Inr d' \<Longrightarrow>
     list_all2 (\<lambda>x y. \<exists>upd. f x = Inr upd \<and> y = x ++ upd) (rows_of d) (rows_of d')"
  by (cases d) (auto split: sum.splits dest!: map_examples_all2 intro: list_all2_appendI)

lemma make_generation_dataset_eq:
  "make_generation_dataset env d sp =
     (if \<forall>x \<in> set (rows_of d). spec_problem_text env x \<noteq> None
      then Inr (case d of Dataset rows \<Rightarrow> Dataset (map (templated env sp) rows)
                | DatasetDict tr te \<Rightarrow> DatasetDict (map (templated env sp) tr) (map (templated env sp) te))
      else Inl (KeyError ''problem''))"
  by (cases d) (auto simp: make_generation_dataset_def map_examples_generation)

text \<open>
  C10. \<^verbatim>\<open>process_dataset\<close> templates only when \<^verbatim>\<open>task_spec\<close> is \<^verbatim>\<open>"gen"\<close>; for any
  dataset and any other \<^verbatim>\<open>task_spec\<close> it returns the dataset it was given, with nothing added
  and no error. The prompt lookup of module \<^verbatim>\<open>system_prompts\<close> runs before the test, so
  the statement is for a lookup that returns.
\<close>

theorem process_dataset_only_gen_templates:
  assumes "get_sys_prompt env (sys_prompt_name script_args) = Inr sys_prompt"
  shows "process_dataset env dataset script_args =
           (if task_spec script_args = ''gen''
            then make_generation_dataset env dataset sys_prompt else Inr dataset)"
  using assms by (simp add: process_dataset_def)

theorem process_dataset_only_gen_templates_witness:
  "get_sys_prompt example_env ''tabc'' = Inr ''SYSTEM tabc''
   \<and> process_dataset example_env (Dataset sleep_rows) \<lparr>sys_prompt_name = ''tabc'', task_spec = ''classify''\<rparr>
       = Inr (Dataset sleep_rows)"
  using process_dataset_only_gen_templates
          [of example_env "\<lparr>sys_prompt_name = ''tabc'', task_spec = ''classify''\<rparr>" "''SYSTEM tabc''"
              "Dataset sleep_rows"]
  by (simp add: example_env_def example_prompts_def ALL_SYS_PROMPTS_def)



lemma process_example_prompt:
  assumes "process_example env sp ai x = Inr upd"
  shows "\<exists>p t. x ''problem'' = Some p
           \<and> healthcare_problem_text ai x = Inr t
           \<and> upd ''prompt'' = Some (conversation sp (user_format_of (py_str env t)))
           \<and> (\<exists>a. x ''answer'' = Some a \<and> upd ''answer'' = Some (PyStr (py_str env a)))"
  using assms
  by (auto simp: process_example_def healthcare_problem_text_def split: sum.splits option.splits)

lemma healthcare_problem_text_cases:
  assumes "healthcare_problem_text ai x = Inr t"
  shows "if ai
         then (\<exists>p source. x ''problem'' = Some (PyStr p)
                 \<and> dict_get x ''source'' (PyStr ''PMData'') = PyStr source
                 \<and> t = PyStr (p @ instruction_for source))
         else x ''problem'' = Some t"
  using assms
  by (auto simp: healthcare_problem_text_def split: option.splits pyval.splits if_splits)

text \<open>
  C6. Every prompt that a templater writes has exactly two entries: first the system turn
  with the variant's system text, then the user turn with the wrapped problem text. This holds
  for the dictionary returned for one example and for every example of a templated dataset,
  for \<^verbatim>\<open>make_generation_dataset\<close> and for \<^verbatim>\<open>make_healthcare_dataset\<close>.
\<close>

theorem prompt_has_two_turns:
  "(make_generation_conversation env sp x = Inr upd \<longrightarrow>
      (\<exists>u. upd ''prompt'' = Some (PyMessages [\<lparr>role = ''system'', content = sp\<rparr>,
                                                \<lparr>role = ''user'', content = user_format_of u\<rparr>])))
   \<and> (process_example env sp ai x = Inr upd' \<longrightarrow>
      (\<exists>u. upd' ''prompt'' = Some (PyMessages [\<lparr>role = ''system'', content = sp\<rparr>,
                                                 \<lparr>role = ''user'', content = user_format_of u\<rparr>])))
   \<and> (make_generation_dataset env d sp = Inr d' \<longrightarrow>
      (\<forall>y \<in> set (rows_of d').
         \<exists>u. y ''prompt'' = Some (PyMessages [\<lparr>role = ''system'', content = sp\<rparr>,
                                                \<lparr>role = ''user'', content = user_format_of u\<rparr>])))
   \<and> (make_healthcare_dataset env d sp ai = Inr d'' \<longrightarrow>
      (\<forall>y \<in> set (rows_of d'').
         \<exists>u. y ''prompt'' = Some (PyMessages [\<lparr>role = ''system'', content = sp\<rparr>,
                                                \<lparr>role = ''user'', content = user_format_of u\<rparr>])))"
proof (intro conjI impI ballI)
  assume "make_generation_conversation env sp x = Inr upd"
  then show "\<exists>u. upd ''prompt'' = Some (PyMessages [\<lparr>role = ''system'', content = sp\<rparr>,
                                                     \<lparr>role = ''user'', content = user_format_of u\<rparr>])"
    by (auto simp: make_generation_conversation_eq conversation_def split: option.splits)
next
  assume "process_example env sp ai x = Inr upd'"
  from process_example_prompt [OF this]
  show "\<exists>u. upd' ''prompt'' = Some (PyMessages [\<lparr>role = ''system'', content = sp\<rparr>,
                                                 \<lparr>role = ''user'', content = user_format_of u\<rparr>])"
    by (auto simp: conversation_def)
next
  fix y assume "make_generation_dataset env d sp = Inr d'" and "y \<in> set (rows_of d')"
  then have "\<exists>x. y = templated env sp x"
    by (cases d) (auto simp: make_generation_dataset_eq split: if_splits)
  then show "\<exists>u. y ''prompt'' = Some (PyMessages [\<lparr>role = ''system'', content = sp\<rparr>,
                                                    \<lparr>role = ''user'', content = user_format_of u\<rparr>])"
    by (auto simp: templated_def conversation_def)
next
  fix y assume "make_healthcare_dataset env d sp ai = Inr d''" and y: "y \<in> set (rows_of d'')"
  then have "list_all2 (\<lambda>x y. \<exists>upd. process_example env sp ai x = Inr upd \<and> y = x ++ upd)
               (rows_of d) (rows_of d'')"
    by (auto simp: make_healthcare_dataset_def dest: dataset_map_rows)
  with y obtain x upd where "process_example env sp ai x = Inr upd" "y = x ++ upd"
    by (auto simp: list_all2_conv_all_nth in_set_conv_nth)
  with process_example_prompt [of env sp ai x upd]
  show "\<exists>u. y ''prompt'' = Some (PyMessages [\<lparr>role = ''system'', content = sp\<rparr>,
                                              \<lparr>role = ''user'', content = user_format_of u\<rparr>])"
    by (auto simp: conversation_def map_add_def)
qed

theorem prompt_has_two_turns_witness:
  "make_generation_dataset example_env (Dataset [example_row ''p'' (PyInt 1) ''s'']) ''SYS''
     = Inr (Dataset [templated example_env ''SYS'' (example_row ''p'' (PyInt 1) ''s'')])
   \<and> (\<exists>u. templated example_env ''SYS'' (example_row ''p'' (PyInt 1) ''s'') ''prompt''
          = Some (PyMessages [\<lparr>role = ''system'', content = ''SYS''\<rparr>,
                              \<lparr>role = ''user'', content = user_format_of u\<rparr>]))"
proof -
  have run: "make_generation_dataset example_env (Dataset [example_row ''p'' (PyInt 1) ''s'']) ''SYS''
     = Inr (Dataset [templated example_env ''SYS'' (example_row ''p'' (PyInt 1) ''s'')])"
    by (simp add: make_generation_dataset_eq spec_problem_text_def example_row_def)
  with prompt_has_two_turns
         [of example_env "''SYS''" "example_row ''p'' (PyInt 1) ''s''" Map.empty True Map.empty
             "Dataset [example_row ''p'' (PyInt 1) ''s'']"
             "Dataset [templated example_env ''SYS'' (example_row ''p'' (PyInt 1) ''s'')]" "Dataset []"]
  show ?thesis by simp
qed

text \<open>
  C7 as stated fails for \<^verbatim>\<open>make_healthcare_dataset\<close>: with \<^verbatim>\<open>add_instruction\<close> (the default)
  the user turn holds the problem text followed by an answer-format sentence, and a
  \<^verbatim>\<open>question\<close> field is never read.
\<close>

theorem healthcare_user_turn_counterexample:
  "process_example example_env ''SYS'' True
     [''problem'' \<mapsto> PyStr ''p'', ''answer'' \<mapsto> PyInt 2, ''source'' \<mapsto> PyStr ''x'']
   = Inr [''prompt'' \<mapsto> PyMessages
            [\<lparr>role = ''system'', content = ''SYS''\<rparr>,
             \<lparr>role = ''user'', content = ''\<newline>\<newline>PROBLEM: p Only provide the predicted value within the <answer> </answer> tags.\<newline>\<newline>''\<rparr>],
          ''answer'' \<mapsto> PyStr ''2'', ''source'' \<mapsto> PyStr ''x'']
   \<and> ''\<newline>\<newline>PROBLEM: p Only provide the predicted value within the <answer> </answer> tags.\<newline>\<newline>''
       \<noteq> ''\<newline>\<newline>PROBLEM: '' @ ''p'' @ ''\<newline>\<newline>''
   \<and> process_example example_env ''SYS'' False
     [''question'' \<mapsto> PyStr ''q'', ''problem'' \<mapsto> PyStr ''p'', ''answer'' \<mapsto> PyInt 2]
   = Inr [''prompt'' \<mapsto> PyMessages
            [\<lparr>role = ''system'', content = ''SYS''\<rparr>,
             \<lparr>role = ''user'', content = ''\<newline>\<newline>PROBLEM: p\<newline>\<newline>''\<rparr>],
          ''answer'' \<mapsto> PyStr ''2'', ''source'' \<mapsto> PyStr ''healthcare'']"
  by (simp add: process_example_def healthcare_problem_text_def dict_get_def instruction_for_def
        lower_def lower_char_def conversation_def user_format_of_def str_of_int_def)

text \<open>
  C7, amended. The user turn written by \<^verbatim>\<open>make_generation_dataset\<close> (the templater that
  \<^verbatim>\<open>process_dataset\<close> calls) is exactly \<^verbatim>\<open>"\n\nPROBLEM: " + problem_text + "\n\n"\<close>, where
  \<^verbatim>\<open>problem_text\<close> is the text of the \<^verbatim>\<open>question\<close> field if the record has one and of the
  \<^verbatim>\<open>problem\<close> field otherwise, a string being taken as it is. \<^verbatim>\<open>make_healthcare_dataset\<close>
  reads the \<^verbatim>\<open>problem\<close> field only; without \<^verbatim>\<open>add_instruction\<close> it wraps that text in the same
  pattern, and with it the wrapped text is the problem string followed by the answer-format
  sentence chosen from the source label.
\<close>

theorem user_turn_content:
  "(x ''question'' = Some q \<longrightarrow>
      make_generation_conversation env sp x =
        Inr [''prompt'' \<mapsto> PyMessages
               [\<lparr>role = ''system'', content = sp\<rparr>,
                \<lparr>role = ''user'', content = ''\<newline>\<newline>PROBLEM: '' @ py_str env q @ ''\<newline>\<newline>''\<rparr>]])
   \<and> (x ''question'' = None \<and> x ''problem'' = Some p \<longrightarrow>
      make_generation_conversation env sp x =
        Inr [''prompt'' \<mapsto> PyMessages
               [\<lparr>role = ''system'', content = sp\<rparr>,
                \<lparr>role = ''user'', content = ''\<newline>\<newline>PROBLEM: '' @ py_str env p @ ''\<newline>\<newline>''\<rparr>]])
   \<and> py_str env (PyStr s) = s
   \<and> (process_example env sp False x = Inr upd \<longrightarrow>
        (\<exists>t. x ''problem'' = Some t \<and>
           upd ''prompt'' = Some (PyMessages
               [\<lparr>role = ''system'', content = sp\<rparr>,
                \<lparr>role = ''user'', content = ''\<newline>\<newline>PROBLEM: '' @ py_str env t @ ''\<newline>\<newline>''\<rparr>])))
   \<and> (process_example env sp True x = Inr upd' \<longrightarrow>
        (\<exists>t source. x ''problem'' = Some (PyStr t)
           \<and> dict_get x ''source'' (PyStr ''PMData'') = PyStr source
           \<and> upd' ''prompt'' = Some (PyMessages
               [\<lparr>role = ''system'', content = sp\<rparr>,
                \<lparr>role = ''user'',
                 content = ''\<newline>\<newline>PROBLEM: '' @ t @ instruction_for source @ ''\<newline>\<newline>''\<rparr>])))"
proof (intro conjI impI)
  assume "process_example env sp False x = Inr upd"
  from process_example_prompt [OF this] healthcare_problem_text_cases [of False x]
  show "\<exists>t. x ''problem'' = Some t \<and>
           upd ''prompt'' = Some (PyMessages
               [\<lparr>role = ''system'', content = sp\<rparr>,
                \<lparr>role = ''user'', content = ''\<newline>\<newline>PROBLEM: '' @ py_str env t @ ''\<newline>\<newline>''\<rparr>])"
    by (auto simp: conversation_def user_format_of_def)
next
  assume "process_example env sp True x = Inr upd'"
  from process_example_prompt [OF this] healthcare_problem_text_cases [of True x]
  show "\<exists>t source. x ''problem'' = Some (PyStr t)
           \<and> dict_get x ''source'' (PyStr ''PMData'') = PyStr source
           \<and> upd' ''prompt'' = Some (PyMessages
               [\<lparr>role = ''system'', content = sp\<rparr>,
                \<lparr>role = ''user'',
                 content = ''\<newline>\<newline>PROBLEM: '' @ t @ instruction_for source @ ''\<newline>\<newline>''\<rparr>])"
    by (auto simp: conversation_def user_format_of_def)
qed (simp_all add: make_generation_conversation_def conversation_def user_format_of_def)

theorem user_turn_content_witness:
  "make_generation_conversation example_env ''SYS''
      [''question'' \<mapsto> PyStr ''q'', ''problem'' \<mapsto> PyStr ''p'']
    = Inr [''prompt'' \<mapsto> PyMessages
             [\<lparr>role = ''system'', content = ''SYS''\<rparr>,
              \<lparr>role = ''user'', content = ''\<newline>\<newline>PROBLEM: q\<newline>\<newline>''\<rparr>]]"
  using user_turn_content
          [of "[''question'' \<mapsto> PyStr ''q'', ''problem'' \<mapsto> PyStr ''p'']" "PyStr ''q''"
              example_env "''SYS''"]
  by simp

section \<open>Properties of the loader and the orchestrator\<close>

lemma load_all_loop_none:
  assumes "\<forall>p \<in> set (map snd csv_files). files env p = None"
  shows "load_all_loop env csv_files r seed all_train all_test = ([], Inr (all_train, all_test))"
  using assms by (induction csv_files) auto

text \<open>
  C8. When none of the listed sources is on disk, \<^verbatim>\<open>load_all_csv_files\<close> reads nothing and
  returns \<^verbatim>\<open>None\<close>, and the orchestrator returns right after it: the only effect of the run is
  the creation of the output directory, no templater runs and no corpus is saved for any
  variant.
\<close>

theorem no_data_aborts:
  assumes "\<forall>p \<in> set (map snd csv_files). files env p = None"
  shows "load_all_csv_files env csv_files train_ratio seed = ([], Inr None)
         \<and> create_datasets_for_prompts env names csv_files output_dir train_ratio seed
             = ([MakeDirs output_dir], Inr None)
         \<and> create_datasets_for_all_prompts env csv_files output_dir train_ratio seed
             = ([MakeDirs output_dir], Inr None)"
  using load_all_loop_none [OF assms]
  by (simp add: load_all_csv_files_def create_datasets_for_prompts_def
        create_datasets_for_all_prompts_def)

theorem no_data_aborts_witness:
  "create_datasets_for_all_prompts example_env [(''sleep_disorder'', ''missing.csv'')] ''out''
      DEFAULT_TRAIN_RATIO DEFAULT_SEED
    = ([MakeDirs ''out''], Inr None)"
  using no_data_aborts [of "[(''sleep_disorder'', ''missing.csv'')]" example_env]
  by (simp add: example_env_def example_files_def)

subsection \<open>The split index\<close>













subsection \<open>Shuffling and slicing\<close>





lemma slice_append: "slice_to k xs @ slice_from k xs = xs"
  by (simp add: slice_to_def slice_from_def)

lemma load_single_csv_found:
  assumes "files env csv_path = Some df0"
  shows "load_single_csv env csv_path train_ratio seed =
           ([ReadCsv csv_path],
            case split_idx (length (df_sample env seed (length df0))) train_ratio of
              Inl err \<Rightarrow> Inl err
            | Inr k \<Rightarrow>
                Inr (slice_to k (reorder (df_sample env seed (length df0)) (map (answer_astype_str env) df0)),
                     slice_from k (reorder (df_sample env seed (length df0)) (map (answer_astype_str env) df0))))"
  using assms by (simp add: load_single_csv_def Let_def reorder_def split: sum.splits)



subsection \<open>Combining the sources\<close>

lemma load_all_loop_splits:
  assumes "load_all_loop env cs r seed all_train all_test = (evs, Inr (all_train', all_test'))"
  shows "\<exists>splits. list_all2 (\<lambda>p s. snd (load_single_csv env p r seed) = Inr s)
                      (existing_paths env cs) splits
           \<and> all_train' = all_train @ map fst splits
           \<and> all_test' = all_test @ map snd splits
           \<and> evs = map ReadCsv (existing_paths env cs)"
  using assms
proof (induction cs arbitrary: all_train all_test evs)
  case Nil
  then show ?case by (simp add: existing_paths_def)
next
  case (Cons c cs)
  obtain task_name csv_path where c: "c = (task_name, csv_path)" by (cases c)
  show ?case
  proof (cases "files env csv_path")
    case None
    with Cons c show ?thesis by (simp add: existing_paths_def)
  next
    case (Some df0)
    from Cons.prems c Some obtain train_ds test_ds evs'
      where one: "load_single_csv env csv_path r seed = ([ReadCsv csv_path], Inr (train_ds, test_ds))"
        and rest: "load_all_loop env cs r seed (all_train @ [train_ds]) (all_test @ [test_ds])
                     = (evs', Inr (all_train', all_test'))"
        and evs: "evs = ReadCsv csv_path # evs'"
      by (auto simp: load_single_csv_found split: sum.splits prod.splits)
    from Cons.IH [OF rest] obtain splits
      where "list_all2 (\<lambda>p s. snd (load_single_csv env p r seed) = Inr s) (existing_paths env cs) splits"
        "all_train' = (all_train @ [train_ds]) @ map fst splits"
        "all_test' = (all_test @ [test_ds]) @ map snd splits"
        "evs' = map ReadCsv (existing_paths env cs)"
      by blast
    with one evs c Some show ?thesis
      by (intro exI [of _ "(train_ds, test_ds) # splits"]) (simp add: existing_paths_def)
  qed
qed


lemma load_all_loop_events:
  assumes "load_all_loop env cs r seed all_train all_test = (evs, res)"
  shows "list_all (\<lambda>ev. \<not> is_save ev) evs"
  using assms
proof (induction cs arbitrary: all_train all_test evs res)
  case Nil
  then show ?case by simp
next
  case (Cons c cs)
  obtain task_name csv_path where c: "c = (task_name, csv_path)" by (cases c)
  show ?case
  proof (cases "files env csv_path")
    case None
    with Cons c show ?thesis by simp
  next
    case (Some df0)
    with Cons.prems c show ?thesis
      by (auto simp: load_single_csv_found split: sum.splits prod.splits dest: Cons.IH)
  qed
qed








lemma split_idx_3: "split_idx 3 DEFAULT_TRAIN_RATIO = Inr 2"
  by (simp add: split_idx_def DEFAULT_TRAIN_RATIO_def int_to_float_def float_round_def
        float_round_pos_def round_half_even_def pow2_def compute_bitlen)

lemma split_idx_2: "split_idx 2 DEFAULT_TRAIN_RATIO = Inr 1"
  by (simp add: split_idx_def DEFAULT_TRAIN_RATIO_def int_to_float_def float_round_def
        float_round_pos_def round_half_even_def pow2_def compute_bitlen)

lemma split_idx_Suc:
  "split_idx (Suc (Suc (Suc 0))) DEFAULT_TRAIN_RATIO = Inr 2"
  "split_idx (Suc (Suc 0)) DEFAULT_TRAIN_RATIO = Inr 1"
  using split_idx_3 split_idx_2 by (simp_all add: numeral_3_eq_3 numeral_2_eq_2)

lemma example_sleep_split:
  "load_single_csv example_env ''sleep.csv'' DEFAULT_TRAIN_RATIO 42
     = ([ReadCsv ''sleep.csv''],
        Inr ([answer_astype_str example_env (example_row ''s2'' (PyInt 0) ''sleep_disorder''),
              answer_astype_str example_env (example_row ''s1'' (PyInt 1) ''sleep_disorder'')],
             [answer_astype_str example_env (example_row ''s0'' (PyInt 0) ''sleep_disorder'')]))"
proof -
  have f: "files example_env ''sleep.csv'' = Some sleep_rows"
    by (simp add: example_env_def example_files_def)
  have idx: "df_sample example_env 42 n = rev [0..<n]" for n
    by (simp add: example_env_def)
  show ?thesis
    by (simp add: load_single_csv_found [OF f] idx split_idx_Suc reorder_def slice_to_def
          slice_from_def sleep_rows_def)
qed

lemma example_stress_split:
  "load_single_csv example_env ''stress.csv'' DEFAULT_TRAIN_RATIO 42
     = ([ReadCsv ''stress.csv''],
        Inr ([answer_astype_str example_env (example_row ''t1'' (PyFloat (Finite 1 (- 1))) ''stress_resilience'')],
             [answer_astype_str example_env (example_row ''t0'' (PyFloat (Finite 5 (- 1))) ''stress_resilience'')]))"
proof -
  have f: "files example_env ''stress.csv'' = Some stress_rows"
    by (simp add: example_env_def example_files_def)
  have idx: "df_sample example_env 42 n = rev [0..<n]" for n
    by (simp add: example_env_def)
  show ?thesis
    by (simp add: load_single_csv_found [OF f] idx split_idx_Suc reorder_def slice_to_def
          slice_from_def stress_rows_def)
qed

lemma example_existing_paths:
  "existing_paths example_env example_csv_files = [''sleep.csv'', ''stress.csv'']"
  by (simp add: existing_paths_def example_csv_files_def example_env_def example_files_def)

lemma example_combined:
  "load_all_csv_files example_env example_csv_files DEFAULT_TRAIN_RATIO 42
     = ([ReadCsv ''sleep.csv'', ReadCsv ''stress.csv''],
        Inr (Some (DatasetDict
          [answer_astype_str example_env (example_row ''s1'' (PyInt 1) ''sleep_disorder''),
           answer_astype_str example_env (example_row ''t1'' (PyFloat (Finite 1 (- 1))) ''stress_resilience''),
           answer_astype_str example_env (example_row ''s2'' (PyInt 0) ''sleep_disorder'')]
          [answer_astype_str example_env (example_row ''t0'' (PyFloat (Finite 5 (- 1))) ''stress_resilience''),
           answer_astype_str example_env (example_row ''s0'' (PyInt 0) ''sleep_disorder'')])))"
proof -
  have "load_all_loop example_env example_csv_files DEFAULT_TRAIN_RATIO 42 [] []
     = ([ReadCsv ''sleep.csv'', ReadCsv ''stress.csv''],
        Inr ([[answer_astype_str example_env (example_row ''s2'' (PyInt 0) ''sleep_disorder''),
               answer_astype_str example_env (example_row ''s1'' (PyInt 1) ''sleep_disorder'')],
              [answer_astype_str example_env (example_row ''t1'' (PyFloat (Finite 1 (- 1))) ''stress_resilience'')]],
             [[answer_astype_str example_env (example_row ''s0'' (PyInt 0) ''sleep_disorder'')],
              [answer_astype_str example_env (example_row ''t0'' (PyFloat (Finite 5 (- 1))) ''stress_resilience'')]]))"
    by (simp add: example_csv_files_def example_sleep_split example_stress_split)
       (simp add: example_env_def example_files_def)
  moreover have "ds_shuffle example_env 42 n = rotate1 [0..<n]" for n
    by (simp add: example_env_def)
  ultimately show ?thesis
    by (simp add: load_all_csv_files_def reorder_def)
qed

lemma problems_of_astype:
  "problems_of (map (answer_astype_str env) rows) = problems_of rows"
  by (simp add: problems_of_def answer_astype_str_def split: option.splits)




subsection \<open>The answer column\<close>



lemma answers_are_text_append [simp]:
  "answers_are_text (xs @ ys) \<longleftrightarrow> answers_are_text xs \<and> answers_are_text ys"
  by (simp add: answers_are_text_def)









subsection \<open>Determinism\<close>

lemma py_str_same_library: "same_library env1 env2 \<Longrightarrow> py_str env1 v = py_str env2 v"
  by (cases v) (simp_all add: same_library_def)

lemma answer_astype_str_same_library:
  "same_library env1 env2 \<Longrightarrow> answer_astype_str env1 = answer_astype_str env2"
  by (rule ext) (simp add: answer_astype_str_def py_str_same_library split: option.splits)

lemma load_single_csv_same_input:
  assumes "same_library env1 env2" and "files env1 p = files env2 p"
  shows "load_single_csv env1 p r seed = load_single_csv env2 p r seed"
proof -
  have "df_sample env1 = df_sample env2"
    using assms(1) by (simp add: same_library_def)
  then show ?thesis
    using assms(2) answer_astype_str_same_library [OF assms(1)]
    by (simp add: load_single_csv_def split: option.splits)
qed

lemma load_all_loop_same_input:
  assumes "same_library env1 env2" and "\<forall>q \<in> set (map snd cs). files env1 q = files env2 q"
  shows "load_all_loop env1 cs r seed all_train all_test
           = load_all_loop env2 cs r seed all_train all_test"
  using assms(2)
proof (induction cs arbitrary: all_train all_test)
  case Nil
  then show ?case by simp
next
  case (Cons c cs)
  obtain task_name csv_path where c: "c = (task_name, csv_path)" by (cases c)
  from Cons.prems c have same: "files env1 csv_path = files env2 csv_path"
    and rest: "\<forall>q \<in> set (map snd cs). files env1 q = files env2 q"
    by simp_all
  show ?case
    using load_single_csv_same_input [OF assms(1) same, of r seed] Cons.IH [OF rest] same
    by (simp add: c split: prod.splits sum.splits)
qed

text \<open>
  C2. For a fixed seed and ratio, two runs in worlds that have the same library and the same
  content at the source's path return the same halves from \<^verbatim>\<open>load_single_csv\<close>, and two
  runs that agree on every listed source return the same combined corpus from
  \<^verbatim>\<open>load_all_csv_files\<close>, whatever else differs between the worlds. The order applied by
  the split is fixed by the seed and the number of rows: two sources of the same length are
  reordered by the same index list and cut at the same place.
\<close>

theorem split_and_combine_are_deterministic:
  "(same_library env1 env2 \<and> files env1 p = files env2 p
    \<longrightarrow> load_single_csv env1 p r seed = load_single_csv env2 p r seed)
   \<and> (same_library env1 env2 \<and> (\<forall>q \<in> set (map snd csv_files). files env1 q = files env2 q)
    \<longrightarrow> load_all_csv_files env1 csv_files r seed = load_all_csv_files env2 csv_files r seed)
   \<and> (files env p = Some df \<and> files env p' = Some df' \<and> length df = length df'
    \<longrightarrow> (\<exists>idx.
           idx = df_sample env seed (length df)
         \<and> snd (load_single_csv env p r seed)
             = (case split_idx (length idx) r of
                  Inl err \<Rightarrow> Inl err
                | Inr k \<Rightarrow> Inr (slice_to k (reorder idx (map (answer_astype_str env) df)),
                               slice_from k (reorder idx (map (answer_astype_str env) df))))
         \<and> snd (load_single_csv env p' r seed)
             = (case split_idx (length idx) r of
                  Inl err \<Rightarrow> Inl err
                | Inr k \<Rightarrow> Inr (slice_to k (reorder idx (map (answer_astype_str env) df')),
                               slice_from k (reorder idx (map (answer_astype_str env) df'))))))"
proof (intro conjI impI)
  assume "same_library env1 env2 \<and> files env1 p = files env2 p"
  then show "load_single_csv env1 p r seed = load_single_csv env2 p r seed"
    by (simp add: load_single_csv_same_input)
next
  assume a: "same_library env1 env2 \<and> (\<forall>q \<in> set (map snd csv_files). files env1 q = files env2 q)"
  then have "ds_shuffle env1 = ds_shuffle env2"
    by (simp add: same_library_def)
  with a show "load_all_csv_files env1 csv_files r seed = load_all_csv_files env2 csv_files r seed"
    using load_all_loop_same_input [of env1 env2 csv_files r seed "[]" "[]"]
    by (simp add: load_all_csv_files_def split: prod.splits sum.splits)
next
  assume "files env p = Some df \<and> files env p' = Some df' \<and> length df = length df'"
  then show "\<exists>idx.
           idx = df_sample env seed (length df)
         \<and> snd (load_single_csv env p r seed)
             = (case split_idx (length idx) r of
                  Inl err \<Rightarrow> Inl err
                | Inr k \<Rightarrow> Inr (slice_to k (reorder idx (map (answer_astype_str env) df)),
                               slice_from k (reorder idx (map (answer_astype_str env) df))))
         \<and> snd (load_single_csv env p' r seed)
             = (case split_idx (length idx) r of
                  Inl err \<Rightarrow> Inl err
                | Inr k \<Rightarrow> Inr (slice_to k (reorder idx (map (answer_astype_str env) df')),
                               slice_from k (reorder idx (map (answer_astype_str env) df'))))"
    by (simp add: load_single_csv_found split: sum.splits)
qed

theorem split_and_combine_are_deterministic_witness:
  "same_library example_env (example_env\<lparr>files := (files example_env)(''other.csv'' \<mapsto> [])\<rparr>)
   \<and> load_all_csv_files (example_env\<lparr>files := (files example_env)(''other.csv'' \<mapsto> [])\<rparr>)
         example_csv_files DEFAULT_TRAIN_RATIO 42
       = load_all_csv_files example_env example_csv_files DEFAULT_TRAIN_RATIO 42"
proof -
  let ?env2 = "example_env\<lparr>files := (files example_env)(''other.csv'' \<mapsto> [])\<rparr>"
  have lib: "same_library example_env ?env2"
    by (simp add: same_library_def)
  have same: "\<forall>q \<in> set (map snd example_csv_files). files example_env q = files ?env2 q"
    by (simp add: example_csv_files_def)
  from split_and_combine_are_deterministic
         [of example_env ?env2 "''sleep.csv''" DEFAULT_TRAIN_RATIO 42 example_csv_files
             example_env "[]" "''sleep.csv''" "[]"]
    lib same
  show ?thesis by simp
qed

subsection \<open>One corpus for every variant\<close>

lemma triple_templated: "triple (templated env sp x) = triple x"
  by (simp add: triple_def templated_def)

lemma erase_system_templated:
  "erase_system (templated env sp x) = erase_system (templated env sp' x)"
  by (simp add: erase_system_def templated_def conversation_def)

lemma make_generation_dataset_templatable:
  "make_generation_dataset env (DatasetDict tr te) sp =
     (if all_templatable env (tr @ te)
      then Inr (DatasetDict (map (templated env sp) tr) (map (templated env sp) te))
      else Inl (KeyError ''problem''))"
  by (simp only: make_generation_dataset_eq all_templatable_def rows_of.simps hf_dataset.case)

lemma create_dataset_for_prompt_eq:
  "create_dataset_for_prompt env (DatasetDict tr te) name output_dir =
     (case get_sys_prompt env name of
        Inl err \<Rightarrow> ([], Inl err)
      | Inr sp \<Rightarrow>
          (if all_templatable env (tr @ te)
           then ([SaveToDisk (path_join output_dir (''lifesnaps_'' @ name))
                    (DatasetDict (map (templated env sp) tr) (map (templated env sp) te))],
                 Inr (DatasetDict (map (templated env sp) tr) (map (templated env sp) te),
                      path_join output_dir (''lifesnaps_'' @ name)))
           else ([], Inl (KeyError ''problem''))))"
  by (simp add: create_dataset_for_prompt_def process_dataset_def
        make_generation_dataset_templatable Let_def split: sum.splits)

lemma prompts_loop_events:
  assumes "prompts_loop env (DatasetDict tr te) output_dir names results = (evs, res)"
  shows "list_all (\<lambda>ev. \<exists>name sp. name \<in> set names \<and> get_sys_prompt env name = Inr sp
                     \<and> ev = SaveToDisk (path_join output_dir (''lifesnaps_'' @ name))
                              (DatasetDict (map (templated env sp) tr) (map (templated env sp) te)))
           evs
         \<and> (\<forall>rs. res = Inr rs \<longrightarrow> length evs = length names)"
  using assms
proof (induction names arbitrary: results evs res)
  case Nil
  then show ?case by auto
next
  case (Cons name names)
  show ?case
  proof (cases "get_sys_prompt env name")
    case (Inl err)
    with Cons.prems show ?thesis
      by (auto simp: create_dataset_for_prompt_eq)
  next
    case (Inr sp)
    show ?thesis
    proof (cases "all_templatable env (tr @ te)")
      case False
      with Cons.prems Inr show ?thesis
        by (auto simp: create_dataset_for_prompt_eq)
    next
      case True
      let ?save = "SaveToDisk (path_join output_dir (''lifesnaps_'' @ name))
                     (DatasetDict (map (templated env sp) tr) (map (templated env sp) te))"
      from Cons.prems Inr True obtain evs' results'
        where rest: "prompts_loop env (DatasetDict tr te) output_dir names results' = (evs', res)"
          and evs: "evs = ?save # evs'"
        by (auto simp: create_dataset_for_prompt_eq split: prod.splits)
      from Cons.IH [OF rest] evs Inr show ?thesis
        by (simp add: list_all_iff) blast
    qed
  qed
qed

lemma prompts_loop_returns:
  assumes "\<forall>name \<in> set names. \<exists>sp. get_sys_prompt env name = Inr sp"
      and "all_templatable env (tr @ te)"
  shows "\<exists>rs. snd (prompts_loop env (DatasetDict tr te) output_dir names results) = Inr rs"
  using assms(1)
proof (induction names arbitrary: results)
  case Nil
  then show ?case by simp
next
  case (Cons name names)
  then obtain sp where sp: "get_sys_prompt env name = Inr sp" by auto
  let ?results = "results(name \<mapsto>
        \<lparr>path = path_join output_dir (''lifesnaps_'' @ name),
         train_size = length (map (templated env sp) tr),
         test_size = length (map (templated env sp) te)\<rparr>)"
  from Cons have "\<exists>rs. snd (prompts_loop env (DatasetDict tr te) output_dir names ?results) = Inr rs"
    by simp
  then show ?case
    using sp assms(2)
    by (cases "prompts_loop env (DatasetDict tr te) output_dir names ?results")
       (simp add: create_dataset_for_prompt_eq)
qed

lemma load_all_csv_files_events:
  "list_all (\<lambda>ev. \<not> is_save ev) (fst (load_all_csv_files env cs r seed))"
proof -
  obtain evs res where loop: "load_all_loop env cs r seed [] [] = (evs, res)"
    by (cases "load_all_loop env cs r seed [] []")
  then have "fst (load_all_csv_files env cs r seed) = evs"
    by (simp add: load_all_csv_files_def Let_def split: sum.splits prod.splits)
  with load_all_loop_events [OF loop] show ?thesis by simp
qed

lemma load_all_csv_files_reads:
  assumes "snd (load_all_csv_files env cs r seed) = Inr x"
  shows "fst (load_all_csv_files env cs r seed) = map ReadCsv (existing_paths env cs)"
proof -
  obtain evs res where loop: "load_all_loop env cs r seed [] [] = (evs, res)"
    by (cases "load_all_loop env cs r seed [] []")
  with assms obtain all_train all_test where res: "res = Inr (all_train, all_test)"
    by (auto simp: load_all_csv_files_def Let_def split: sum.splits)
  from load_all_loop_splits [OF loop [unfolded res]] have "evs = map ReadCsv (existing_paths env cs)"
    by auto
  with loop res show ?thesis
    by (simp add: load_all_csv_files_def Let_def)
qed

lemma load_all_csv_files_dict:
  assumes "snd (load_all_csv_files env cs r seed) = Inr (Some raw)"
  shows "\<exists>tr te. raw = DatasetDict tr te"
  using assms
  by (auto simp: load_all_csv_files_def Let_def split: sum.splits prod.splits if_splits)


text \<open>
  C1. In a run of the orchestrator over any list of prompt names, the effects other than
  the saved corpora are the creation of the output directory followed by the effects of one
  call of \<^verbatim>\<open>load_all_csv_files\<close>, which do not depend on the names; when the load returns,
  it has read each source that is on disk once. Every saved corpus is the one combined corpus
  with the prompt of its variant added to each record, so any two saved corpora have the same
  sequences of (problem, answer, source) triples in their train halves and in their test
  halves, and are equal once the content of the system turn is blanked. A run that returns
  its results has saved one corpus per name.
\<close>

theorem variants_share_one_corpus:
  assumes "create_datasets_for_prompts env names csv_files output_dir r seed = (evs, res)"
  shows "filter (\<lambda>ev. \<not> is_save ev) evs
           = MakeDirs output_dir # fst (load_all_csv_files env csv_files r seed)
   \<and> (\<forall>x. snd (load_all_csv_files env csv_files r seed) = Inr x \<longrightarrow>
          fst (load_all_csv_files env csv_files r seed) = map ReadCsv (existing_paths env csv_files))
   \<and> (\<forall>p d. SaveToDisk p d \<in> set evs \<longrightarrow>
          (\<exists>tr te sp. snd (load_all_csv_files env csv_files r seed) = Inr (Some (DatasetDict tr te))
             \<and> d = DatasetDict (map (templated env sp) tr) (map (templated env sp) te)))
   \<and> (\<forall>p d p' d'. SaveToDisk p d \<in> set evs \<and> SaveToDisk p' d' \<in> set evs \<longrightarrow>
          (\<exists>tr te tr' te'. d = DatasetDict tr te \<and> d' = DatasetDict tr' te'
             \<and> map triple tr = map triple tr' \<and> map triple te = map triple te'
             \<and> map erase_system tr = map erase_system tr'
             \<and> map erase_system te = map erase_system te'))
   \<and> (\<forall>rs. res = Inr (Some rs) \<longrightarrow> length (filter is_save evs) = length names)"
proof -
  obtain levs lres where load: "load_all_csv_files env csv_files r seed = (levs, lres)"
    by (cases "load_all_csv_files env csv_files r seed")
  have levs: "filter (\<lambda>ev. \<not> is_save ev) levs = levs" "filter is_save levs = []"
    "\<And>p d. SaveToDisk p d \<notin> set levs"
    using load_all_csv_files_events [of env csv_files r seed] load
    by (auto simp: list_all_iff filter_empty_conv)
  have reads: "\<forall>x. snd (load_all_csv_files env csv_files r seed) = Inr x \<longrightarrow>
          fst (load_all_csv_files env csv_files r seed) = map ReadCsv (existing_paths env csv_files)"
    using load_all_csv_files_reads by blast
  show ?thesis
  proof (cases "\<exists>raw. lres = Inr (Some raw)")
    case False
    then have "evs = MakeDirs output_dir # levs" "\<forall>rs. res \<noteq> Inr (Some rs)"
      using assms load
      by (auto simp: create_datasets_for_prompts_def split: sum.splits option.splits)
    with levs reads load show ?thesis by simp
  next
    case True
    then obtain tr te where raw: "lres = Inr (Some (DatasetDict tr te))"
      using load_all_csv_files_dict [of env csv_files r seed] load by auto
    obtain pevs pres where loop:
        "prompts_loop env (DatasetDict tr te) output_dir names Map.empty = (pevs, pres)"
      by (cases "prompts_loop env (DatasetDict tr te) output_dir names Map.empty")
    have evs: "evs = MakeDirs output_dir # levs @ pevs"
      and res: "\<forall>rs. res = Inr (Some rs) \<longrightarrow> pres = Inr rs"
      using assms load raw loop
      by (auto simp: create_datasets_for_prompts_def split: sum.splits)
    have saved: "\<forall>ev \<in> set pevs. \<exists>name sp. ev = SaveToDisk (path_join output_dir (''lifesnaps_'' @ name))
                     (DatasetDict (map (templated env sp) tr) (map (templated env sp) te))"
      using prompts_loop_events [OF loop] by (simp add: list_all_iff) blast
    have count: "\<forall>rs. pres = Inr rs \<longrightarrow> length pevs = length names"
      using prompts_loop_events [OF loop] by simp
    from saved have pevs: "filter (\<lambda>ev. \<not> is_save ev) pevs = []" "filter is_save pevs = pevs"
      by (auto simp: filter_empty_conv filter_id_conv)
    have c1: "filter (\<lambda>ev. \<not> is_save ev) evs
           = MakeDirs output_dir # fst (load_all_csv_files env csv_files r seed)"
      using evs levs(1) pevs(1) load by simp
    have c3: "\<exists>sp. d = DatasetDict (map (templated env sp) tr) (map (templated env sp) te)"
      if "SaveToDisk p d \<in> set evs" for p d
      using that evs levs(3) saved by auto
    have c5: "\<forall>rs. res = Inr (Some rs) \<longrightarrow> length (filter is_save evs) = length names"
      using evs levs(2) pevs(2) res count by simp
    have c4: "\<exists>tr1 te1 tr2 te2. d = DatasetDict tr1 te1 \<and> d' = DatasetDict tr2 te2
             \<and> map triple tr1 = map triple tr2 \<and> map triple te1 = map triple te2
             \<and> map erase_system tr1 = map erase_system tr2
             \<and> map erase_system te1 = map erase_system te2"
      if "SaveToDisk p d \<in> set evs" "SaveToDisk p' d' \<in> set evs" for p d p' d'
    proof -
      from c3 [OF that(1)] c3 [OF that(2)] obtain sp sp'
        where "d = DatasetDict (map (templated env sp) tr) (map (templated env sp) te)"
          "d' = DatasetDict (map (templated env sp') tr) (map (templated env sp') te)"
        by blast
      then show ?thesis
        using erase_system_templated [of env sp _ sp']
        by (simp add: triple_templated comp_def)
    qed
    show ?thesis
      using c1 reads c3 c4 c5 load raw by (intro conjI) auto
  qed
qed

theorem variants_share_one_corpus_witness:
  "\<exists>evs rs. create_datasets_for_all_prompts example_env example_csv_files ''out'' DEFAULT_TRAIN_RATIO 42
              = (evs, Inr (Some rs))
     \<and> length (filter is_save evs) = 4
     \<and> filter (\<lambda>ev. \<not> is_save ev) evs
         = [MakeDirs ''out'', ReadCsv ''sleep.csv'', ReadCsv ''stress.csv'']"
proof -
  let ?tr = "[answer_astype_str example_env (example_row ''s1'' (PyInt 1) ''sleep_disorder''),
           answer_astype_str example_env (example_row ''t1'' (PyFloat (Finite 1 (- 1))) ''stress_resilience''),
           answer_astype_str example_env (example_row ''s2'' (PyInt 0) ''sleep_disorder'')]"
  let ?te = "[answer_astype_str example_env (example_row ''t0'' (PyFloat (Finite 5 (- 1))) ''stress_resilience''),
           answer_astype_str example_env (example_row ''s0'' (PyInt 0) ''sleep_disorder'')]"
  have ok: "all_templatable example_env (?tr @ ?te)"
    by (simp add: all_templatable_def spec_problem_text_def answer_astype_str_def example_row_def)
  have names: "\<forall>name \<in> set ALL_SYS_PROMPTS. \<exists>sp. get_sys_prompt example_env name = Inr sp"
    by (simp add: example_env_def example_prompts_def)
  obtain pevs pres where loop:
      "prompts_loop example_env (DatasetDict ?tr ?te) ''out'' ALL_SYS_PROMPTS Map.empty = (pevs, pres)"
    by (cases "prompts_loop example_env (DatasetDict ?tr ?te) ''out'' ALL_SYS_PROMPTS Map.empty")
  with prompts_loop_returns [OF names ok, of "''out''" Map.empty] obtain rs where "pres = Inr rs"
    by auto
  with loop have run: "create_datasets_for_prompts example_env ALL_SYS_PROMPTS example_csv_files ''out''
                  DEFAULT_TRAIN_RATIO 42
               = (MakeDirs ''out'' # [ReadCsv ''sleep.csv'', ReadCsv ''stress.csv''] @ pevs, Inr (Some rs))"
    by (simp add: create_datasets_for_prompts_def example_combined)
  let ?evs = "MakeDirs ''out'' # [ReadCsv ''sleep.csv'', ReadCsv ''stress.csv''] @ pevs"
  from variants_share_one_corpus [OF run]
  have "filter (\<lambda>ev. \<not> is_save ev) ?evs
          = MakeDirs ''out'' # fst (load_all_csv_files example_env example_csv_files DEFAULT_TRAIN_RATIO 42)"
    and "length (filter is_save ?evs) = length ALL_SYS_PROMPTS"
    by blast+
  then have "filter (\<lambda>ev. \<not> is_save ev) ?evs
               = [MakeDirs ''out'', ReadCsv ''sleep.csv'', ReadCsv ''stress.csv'']"
    and "length (filter is_save ?evs) = 4"
    by (simp_all add: example_combined ALL_SYS_PROMPTS_def)
  with run show ?thesis
    unfolding create_datasets_for_all_prompts_def by blast
qed

end
